theory Spec2Isabelle
  imports Main
begin

section \<open>The store\<close>

text \<open>
  The models of \<^verbatim>\<open>models.py\<close>. A \<^verbatim>\<open>DateTime\<close> is the number of
  microseconds since \<^verbatim>\<open>datetime.min\<close>, so \<^verbatim>\<open>datetime.min\<close> is 0 and
  \<^verbatim>\<open>datetime.max\<close> is the last microsecond of year 9999. The engine is the one
  \<^verbatim>\<open>config.py\<close> selects by default, SQLite: \<^verbatim>\<open>NOT NULL\<close> is enforced,
  foreign keys are declared but not enforced, and a new row's integer primary key is the
  largest one of its table plus one. A table is the list of its rows in insertion order, which
  is the order in which an unordered \<^verbatim>\<open>first()\<close> sees them. The table of users is a
  map from the primary key, since the handlers reach a user only through
  \<^verbatim>\<open>User.query.get\<close>.
\<close>

type_synonym datetime = nat

definition datetime_min :: datetime where
  "datetime_min = 0"

definition datetime_max :: datetime where
  "datetime_max = 315537897599999999"

definition days_30 :: nat where
  "days_30 = 30 * 86400 * 1000000"

record user =
  username :: string
  status :: string
  coins :: int

record message =
  m_id :: int
  m_body :: string
  m_created_at :: datetime
  m_sender_id :: int
  m_recipient_id :: "int option"
  m_room :: "string option"

record coin_transaction =
  tx_id :: int
  tx_from_id :: "int option"
  tx_to_id :: "int option"
  tx_amount :: int
  tx_created_at :: datetime
  tx_note :: "string option"

record dm_unlock =
  un_id :: int
  un_user_id :: int
  un_target_id :: int
  un_expires_at :: "datetime option"

record voice_room =
  vr_id :: int
  vr_name :: string
  vr_created_by :: int
  vr_created_at :: datetime
  vr_active :: bool

record voice_participant =
  vp_id :: int
  vp_room_id :: int
  vp_user_id :: int
  vp_role :: string
  vp_joined_at :: datetime

record db =
  users :: "int \<rightharpoonup> user"
  messages :: "message list"
  coin_transactions :: "coin_transaction list"
  dm_unlocks :: "dm_unlock list"
  voice_rooms :: "voice_room list"
  voice_participants :: "voice_participant list"

definition next_id :: "int list \<Rightarrow> int" where
  "next_id ids = fold max ids 0 + 1"

definition MAX_STAGE :: nat where
  "MAX_STAGE = 10"

definition DM_FREE_MSG_LIMIT :: nat where
  "DM_FREE_MSG_LIMIT = 3"

text \<open>
  An \<^verbatim>\<open>INTEGER\<close> column holds 64 bits, signed. The driver binds the parameters
  of a statement before SQLite sees it, and refuses an integer outside the 64 bits with
  \<^verbatim>\<open>OverflowError\<close>, whatever the table holds. A parameter that is
  \<^verbatim>\<open>None\<close> is always bound: \<^verbatim>\<open>filter_by\<close> turns it into
  \<^verbatim>\<open>IS NULL\<close>. The id of the logged-in user is a primary key of the store, which the
  driver binds.
\<close>

definition sqlite_int_max :: int where
  "sqlite_int_max = 9223372036854775807"

definition int64 :: "int \<Rightarrow> bool" where
  "int64 i = (- sqlite_int_max - 1 \<le> i \<and> i \<le> sqlite_int_max)"

definition bindable :: "int option \<Rightarrow> bool" where
  "bindable v = (case v of None \<Rightarrow> True | Some i \<Rightarrow> int64 i)"

text \<open>
  No column of a store that SQLite holds has an integer outside the 64 bits, so a parameter
  that equals a value of the column it is compared with is one the driver binds.
  \<^verbatim>\<open>bind_fails column v\<close> says that the parameter \<^verbatim>\<open>v\<close>, compared with
  that column, makes the query raise: it is outside the 64 bits, and hence not in the column.
\<close>

definition bind_fails :: "int list \<Rightarrow> int option \<Rightarrow> bool" where
  "bind_fails column v =
     (case v of None \<Rightarrow> False | Some i \<Rightarrow> \<not> int64 i \<and> i \<notin> set column)"

section \<open>Python values\<close>

text \<open>
  \<^verbatim>\<open>str\<close> of an integer, and of an optional integer (\<^verbatim>\<open>str(None)\<close> is
  \<^verbatim>\<open>'None'\<close>): the names of the per-user rooms and of the voice rooms are built
  with it.
\<close>

definition digit_char :: "nat \<Rightarrow> char" where
  "digit_char d = ''0123456789'' ! d"

fun str_nat :: "nat \<Rightarrow> string" where
  "str_nat n = (if n < 10 then [digit_char n] else str_nat (n div 10) @ [digit_char (n mod 10)])"

declare str_nat.simps [simp del]

definition str_int :: "int \<Rightarrow> string" where
  "str_int i = (if i < 0 then CHR ''-'' # str_nat (nat (- i)) else str_nat (nat i))"

definition str_opt :: "int option \<Rightarrow> string" where
  "str_opt v = (case v of None \<Rightarrow> ''None'' | Some i \<Rightarrow> str_int i)"

text \<open>
  \<^verbatim>\<open>str.strip()\<close>. A character of a string here is a code point below 256; the
  whitespace of Python there is 9 to 13, 28 to 32, 133 and 160.
\<close>

definition is_space :: "char \<Rightarrow> bool" where
  "is_space c = ((of_char c :: nat) \<in> set [9, 10, 11, 12, 13, 28, 29, 30, 31, 32, 133, 160])"

definition strip :: "string \<Rightarrow> string" where
  "strip s = rev (dropWhile is_space (rev (dropWhile is_space s)))"

text \<open>
  A value handed to \<^verbatim>\<open>int(...)\<close>: either \<^verbatim>\<open>int\<close> returns a number or it
  raises \<^verbatim>\<open>ValueError\<close> or \<^verbatim>\<open>TypeError\<close>.
\<close>

datatype raw = IntLike int | NotIntLike

definition py_int :: "raw \<Rightarrow> int option" where
  "py_int v = (case v of IntLike i \<Rightarrow> Some i | NotIntLike \<Rightarrow> None)"

text \<open>The values of an event's payload.\<close>

datatype jval = JNull | JInt int | JStr string | JTime datetime

definition jint_opt :: "int option \<Rightarrow> jval" where
  "jint_opt v = (case v of None \<Rightarrow> JNull | Some i \<Rightarrow> JInt i)"

definition jstr_opt :: "string option \<Rightarrow> jval" where
  "jstr_opt v = (case v of None \<Rightarrow> JNull | Some s \<Rightarrow> JStr s)"

type_synonym payload = "(string \<times> jval) list"

text \<open>
  What a handler does besides writing to the store, in the order in which it does it:
  \<^verbatim>\<open>emit(name, payload, room=r)\<close> (or \<^verbatim>\<open>to=r\<close>), \<^verbatim>\<open>join_room\<close>,
  \<^verbatim>\<open>leave_room\<close>, \<^verbatim>\<open>disconnect\<close>, and an exception that leaves the handler
  for \<^verbatim>\<open>default_error_handler\<close>.
\<close>

datatype effect =
    Emit string payload string
  | JoinRoom string
  | LeaveRoom string
  | Disconnect
  | Uncaught

text \<open>
  The request context of a handler: the user id that Flask-Login resolved for the connection
  (\<^verbatim>\<open>current_user\<close> is that user's row when \<^verbatim>\<open>load_user\<close> finds it,
  anonymous otherwise), the session keys \<^verbatim>\<open>_user_id\<close> and \<^verbatim>\<open>user_id\<close>,
  and \<^verbatim>\<open>request.sid\<close>.
\<close>

record ctx =
  login_id :: "int option"
  sess__user_id :: "raw option"
  sess_user_id :: "raw option"
  sid :: string

definition current_user :: "db \<Rightarrow> ctx \<Rightarrow> (int \<times> user) option" where
  "current_user st c =
     (case login_id c of
        None \<Rightarrow> None
      | Some i \<Rightarrow> (case users st i of None \<Rightarrow> None | Some u \<Rightarrow> Some (i, u)))"

section \<open>The direct-message gate\<close>

definition first_unlock :: "db \<Rightarrow> int \<Rightarrow> int \<Rightarrow> dm_unlock option" where
  "first_unlock st a b =
     (case filter (\<lambda>u. un_user_id u = a \<and> un_target_id u = b) (dm_unlocks st) of
        [] \<Rightarrow> None
      | u # _ \<Rightarrow> Some u)"

definition unlock_active :: "db \<Rightarrow> int \<Rightarrow> int \<Rightarrow> datetime \<Rightarrow> bool" where
  "unlock_active st sender recipient now =
     (case first_unlock st sender recipient of
        None \<Rightarrow> False
      | Some u \<Rightarrow> (case un_expires_at u of None \<Rightarrow> True | Some e \<Rightarrow> e > now))"

definition last_reply :: "db \<Rightarrow> int \<Rightarrow> int \<Rightarrow> message option" where
  "last_reply st sender recipient =
     (case rev (sort_key m_created_at
            (filter (\<lambda>m. m_sender_id m = recipient \<and> m_recipient_id m = Some sender)
               (messages st))) of
        [] \<Rightarrow> None
      | m # _ \<Rightarrow> Some m)"

definition since_of :: "db \<Rightarrow> int \<Rightarrow> int \<Rightarrow> datetime" where
  "since_of st sender recipient =
     (case last_reply st sender recipient of
        None \<Rightarrow> datetime_min
      | Some m \<Rightarrow> m_created_at m)"

definition sent_count :: "db \<Rightarrow> int \<Rightarrow> int \<Rightarrow> nat" where
  "sent_count st sender recipient =
     length (filter (\<lambda>m. m_sender_id m = sender \<and> m_recipient_id m = Some recipient \<and>
                          m_created_at m > since_of st sender recipient)
               (messages st))"

text \<open>
  The first query of \<^verbatim>\<open>dm_allowed\<close> binds both ids, so the call raises when one of
  them is outside the 64 bits: that is the result \<^verbatim>\<open>None\<close>.
\<close>

definition dm_allowed :: "db \<Rightarrow> int \<Rightarrow> int \<Rightarrow> datetime \<Rightarrow> bool option" where
  "dm_allowed st sender recipient now =
     (if \<not> int64 sender \<or> \<not> int64 recipient then None
      else if unlock_active st sender recipient now then Some True
      else Some (sent_count st sender recipient < DM_FREE_MSG_LIMIT))"

section \<open>The handlers\<close>

text \<open>
  Every handler takes the request context, the fields of its payload (a field is
  \<^verbatim>\<open>None\<close> when the payload lacks it; an id is an integer or missing), the readings
  of the clock it makes, and the store, and returns the store and its effects. A write the
  engine accepts succeeds; \<^verbatim>\<open>authenticated_only\<close> disconnects an anonymous caller
  before the handler runs.
\<close>

definition authenticated_only ::
    "(int \<times> user \<Rightarrow> db \<Rightarrow> db \<times> effect list) \<Rightarrow> ctx \<Rightarrow> db \<Rightarrow> db \<times> effect list" where
  "authenticated_only f c st =
     (case current_user st c of
        None \<Rightarrow> (st, [Disconnect])
      | Some cu \<Rightarrow> f cu st)"

subsection \<open>send_message\<close>

record message_data =
  d_body :: "string option"
  d_recipient_id :: "int option"
  d_room :: "string option"

definition resolve_sender :: "db \<Rightarrow> ctx \<Rightarrow> int option" where
  "resolve_sender st c =
     (case current_user st c of
        Some (i, u) \<Rightarrow> Some i
      | None \<Rightarrow>
         (case sess__user_id c of
            Some v \<Rightarrow> py_int v
          | None \<Rightarrow> (case sess_user_id c of Some v \<Rightarrow> py_int v | None \<Rightarrow> None)))"

definition truthy_id :: "int option \<Rightarrow> bool" where
  "truthy_id v = (case v of None \<Rightarrow> False | Some i \<Rightarrow> i \<noteq> 0)"

definition truthy_str :: "string option \<Rightarrow> bool" where
  "truthy_str v = (case v of None \<Rightarrow> False | Some s \<Rightarrow> s \<noteq> [])"

definition sender_name :: "db \<Rightarrow> int \<Rightarrow> string" where
  "sender_name st i = (case users st i of None \<Rightarrow> ''Unknown'' | Some u \<Rightarrow> username u)"

definition message_payload :: "db \<Rightarrow> message \<Rightarrow> payload" where
  "message_payload st m =
     [(''id'', JInt (m_id m)),
      (''body'', JStr (m_body m)),
      (''sender_id'', JInt (m_sender_id m)),
      (''sender_username'', JStr (sender_name st (m_sender_id m))),
      (''recipient_id'', jint_opt (m_recipient_id m)),
      (''room'', jstr_opt (m_room m)),
      (''created_at'', JTime (m_created_at m))]"

definition blocked :: "string \<Rightarrow> string \<Rightarrow> effect" where
  "blocked reason dest = Emit ''blocked_message'' [(''reason'', JStr reason)] dest"

text \<open>
  \<^verbatim>\<open>recipient_id and not dm_allowed(sender_id, recipient_id)\<close>: the gate is asked only
  for a recipient id that is neither missing nor 0. The result is whether the message may
  pass, or \<^verbatim>\<open>None\<close> when \<^verbatim>\<open>dm_allowed\<close> raises.
\<close>

definition dm_gate :: "db \<Rightarrow> int \<Rightarrow> int option \<Rightarrow> datetime \<Rightarrow> bool option" where
  "dm_gate st sender recipient_id now =
     (case recipient_id of
        None \<Rightarrow> Some True
      | Some r \<Rightarrow> if r = 0 then Some True else dm_allowed st sender r now)"

definition new_message_effects :: "int \<Rightarrow> message_data \<Rightarrow> payload \<Rightarrow> effect list" where
  "new_message_effects sender d p =
     (if truthy_str (d_room d)
      then [Emit ''new_message'' p (case d_room d of None \<Rightarrow> [] | Some r \<Rightarrow> r)]
      else if truthy_id (d_recipient_id d)
      then [Emit ''new_message'' p (str_opt (d_recipient_id d)),
            Emit ''new_message'' p (str_int sender)]
      else [Emit ''new_message'' p ''lobby''])"

definition sio_send_message ::
    "ctx \<Rightarrow> message_data \<Rightarrow> datetime \<Rightarrow> datetime \<Rightarrow> db \<Rightarrow> db \<times> effect list" where
  "sio_send_message c d now t_insert st =
     (case resolve_sender st c of
        None \<Rightarrow> (st, [blocked ''Not authenticated.'' (sid c)])
      | Some sender \<Rightarrow>
          if sender = 0 then (st, [blocked ''Not authenticated.'' (sid c)])
          else
            let body = strip (case d_body d of None \<Rightarrow> [] | Some b \<Rightarrow> b) in
            if body = [] then (st, [])
            else
              (case dm_gate st sender (d_recipient_id d) now of
                 None \<Rightarrow> (st, [blocked ''Error sending message.'' (sid c)])
               | Some allowed \<Rightarrow>
                   if \<not> allowed
                   then (st, [blocked ''You must receive a response or send coins to unlock.''
                                (str_int sender)])
                   else if \<not> int64 sender \<or> \<not> bindable (d_recipient_id d)
                   then (st, [blocked ''Error sending message.'' (sid c)])
                   else
                     let msg = \<lparr>m_id = next_id (map m_id (messages st)), m_body = body,
                                m_created_at = t_insert, m_sender_id = sender,
                                m_recipient_id = d_recipient_id d, m_room = d_room d\<rparr>;
                         st' = st\<lparr>messages := messages st @ [msg]\<rparr>
                     in (st', new_message_effects sender d (message_payload st' msg))))"

subsection \<open>send_coins\<close>

record coins_data =
  d_to :: "int option"
  d_amount :: "raw option"

fun update_first :: "('a \<Rightarrow> bool) \<Rightarrow> ('a \<Rightarrow> 'a) \<Rightarrow> 'a list \<Rightarrow> 'a list" where
  "update_first P f [] = []"
| "update_first P f (x # xs) = (if P x then f x # xs else x # update_first P f xs)"

definition emit_coins_update :: "int \<Rightarrow> int \<Rightarrow> effect" where
  "emit_coins_update i c = Emit ''coins_update'' [(''user_id'', JInt i), (''coins'', JInt c)] (str_int i)"

text \<open>
  \<^verbatim>\<open>User.query.get(to_id)\<close> returns the session's own object for a primary key, so
  for a gift to oneself \<^verbatim>\<open>recipient\<close> is the object behind \<^verbatim>\<open>current_user\<close>
  and its credit reads the debited balance. The lookup raises for a \<^verbatim>\<open>to\<close> outside
  the 64 bits. \<^verbatim>\<open>datetime.utcnow() + timedelta(days=30)\<close> raises
  \<^verbatim>\<open>OverflowError\<close> beyond \<^verbatim>\<open>datetime.max\<close>, and so does the flush when
  the amount or a new balance is outside the 64 bits; the handler then rolls everything
  back.
\<close>

definition upsert_unlock :: "int \<Rightarrow> int \<Rightarrow> datetime \<Rightarrow> dm_unlock list \<Rightarrow> dm_unlock list" where
  "upsert_unlock a b e us =
     (if filter (\<lambda>u. un_user_id u = a \<and> un_target_id u = b) us = []
      then us @ [\<lparr>un_id = next_id (map un_id us), un_user_id = a, un_target_id = b,
                  un_expires_at = Some e\<rparr>]
      else update_first (\<lambda>u. un_user_id u = a \<and> un_target_id u = b)
             (\<lambda>u. u\<lparr>un_expires_at := Some e\<rparr>) us)"

definition send_coins_body ::
    "coins_data \<Rightarrow> datetime \<Rightarrow> datetime \<Rightarrow> int \<times> user \<Rightarrow> db \<Rightarrow> db \<times> effect list" where
  "send_coins_body d now t_insert cu st =
     (case cu of (me, payer) \<Rightarrow>
      (case (case d_amount d of None \<Rightarrow> Some 0 | Some v \<Rightarrow> py_int v) of
         None \<Rightarrow> (st, [Uncaught])
       | Some amount \<Rightarrow>
           if amount \<le> 0 then (st, [])
           else if coins payer < amount
           then (st, [blocked ''Not enough coins.'' (str_int me)])
           else if \<not> bindable (d_to d)
           then (st, [blocked ''Error sending coins.'' (str_int me)])
           else
             (case (case d_to d of None \<Rightarrow> None | Some t \<Rightarrow> map_option (Pair t) (users st t)) of
                None \<Rightarrow> (st, [blocked ''User not found.'' (str_int me)])
              | Some (rid, recipient) \<Rightarrow>
                  let payer1 = payer\<lparr>coins := coins payer - amount\<rparr>;
                      recipient1 = (if rid = me then payer1 else recipient);
                      recipient2 = recipient1\<lparr>coins := coins recipient1 + amount\<rparr>;
                      payer2 = (if rid = me then recipient2 else payer1);
                      tx = \<lparr>tx_id = next_id (map tx_id (coin_transactions st)),
                            tx_from_id = Some me, tx_to_id = Some rid, tx_amount = amount,
                            tx_created_at = t_insert, tx_note = Some ''gift''\<rparr>
                  in if now + days_30 > datetime_max \<or> \<not> int64 amount \<or>
                        \<not> int64 (coins payer2) \<or> \<not> int64 (coins recipient2)
                     then (st, [blocked ''Error sending coins.'' (str_int me)])
                     else
                       (st\<lparr>users := (users st)(me \<mapsto> payer2, rid \<mapsto> recipient2),
                           coin_transactions := coin_transactions st @ [tx],
                           dm_unlocks := upsert_unlock me rid (now + days_30) (dm_unlocks st)\<rparr>,
                        [emit_coins_update me (coins payer2), emit_coins_update rid (coins recipient2)]))))"

definition sio_send_coins ::
    "ctx \<Rightarrow> coins_data \<Rightarrow> datetime \<Rightarrow> datetime \<Rightarrow> db \<Rightarrow> db \<times> effect list" where
  "sio_send_coins c d now t_insert st = authenticated_only (send_coins_body d now t_insert) c st"

subsection \<open>Voice rooms\<close>

definition room_name :: "int option \<Rightarrow> string" where
  "room_name room_id = ''voice_'' @ str_opt room_id"

definition participant_of :: "int option \<Rightarrow> int option \<Rightarrow> voice_participant \<Rightarrow> bool" where
  "participant_of room_id user_id p =
     (Some (vp_room_id p) = room_id \<and> Some (vp_user_id p) = user_id)"

definition first_participant :: "db \<Rightarrow> int option \<Rightarrow> int option \<Rightarrow> voice_participant option" where
  "first_participant st room_id user_id =
     (case filter (participant_of room_id user_id) (voice_participants st) of
        [] \<Rightarrow> None
      | p # _ \<Rightarrow> Some p)"

text \<open>
  The handlers of the voice rooms compare the room id of the payload with the column
  \<^verbatim>\<open>room_id\<close> of the participants, and \<^verbatim>\<open>voice_stage_decision\<close> also the
  target's id with the column \<^verbatim>\<open>user_id\<close>. When the driver refuses the parameter the
  query raises inside the \<^verbatim>\<open>try\<close>: \<^verbatim>\<open>voice_join\<close> then reports
  \<^verbatim>\<open>Error joining voice room.\<close>, the other two only roll back.
\<close>

definition room_ids :: "db \<Rightarrow> int list" where
  "room_ids st = map vp_room_id (voice_participants st)"

definition member_ids :: "db \<Rightarrow> int list" where
  "member_ids st = map vp_user_id (voice_participants st)"

definition voice_join_body :: "int option \<Rightarrow> datetime \<Rightarrow> int \<times> user \<Rightarrow> db \<Rightarrow> db \<times> effect list" where
  "voice_join_body room_id t_insert cu st =
     (case cu of (me, u) \<Rightarrow>
      if bind_fails (room_ids st) room_id
      then (st, [JoinRoom (room_name room_id),
                 blocked ''Error joining voice room.'' (str_int me)])
      else
      (case first_participant st room_id (Some me) of
         Some vp \<Rightarrow>
           (st, [JoinRoom (room_name room_id),
                 Emit ''voice_user_joined'' [(''user_id'', JInt me), (''role'', JStr (vp_role vp))]
                   (room_name room_id)])
       | None \<Rightarrow>
           (case room_id of
              None \<Rightarrow>
                (st, [JoinRoom (room_name room_id),
                      blocked ''Error joining voice room.'' (str_int me)])
            | Some r \<Rightarrow>
                (st\<lparr>voice_participants := voice_participants st @
                      [\<lparr>vp_id = next_id (map vp_id (voice_participants st)), vp_room_id = r,
                        vp_user_id = me, vp_role = ''listener'', vp_joined_at = t_insert\<rparr>]\<rparr>,
                 [JoinRoom (room_name room_id),
                  Emit ''voice_user_joined'' [(''user_id'', JInt me), (''role'', JStr ''listener'')]
                    (room_name room_id)]))))"

definition sio_voice_join :: "ctx \<Rightarrow> int option \<Rightarrow> datetime \<Rightarrow> db \<Rightarrow> db \<times> effect list" where
  "sio_voice_join c room_id t_insert st = authenticated_only (voice_join_body room_id t_insert) c st"

definition voice_leave_body :: "int option \<Rightarrow> int \<times> user \<Rightarrow> db \<Rightarrow> db \<times> effect list" where
  "voice_leave_body room_id cu st =
     (case cu of (me, u) \<Rightarrow>
        if bind_fails (room_ids st) room_id
        then (st, [LeaveRoom (room_name room_id)])
        else
        (st\<lparr>voice_participants :=
              filter (\<lambda>p. \<not> participant_of room_id (Some me) p) (voice_participants st)\<rparr>,
         [LeaveRoom (room_name room_id),
          Emit ''voice_user_left'' [(''user_id'', JInt me)] (room_name room_id)]))"

definition sio_voice_leave :: "ctx \<Rightarrow> int option \<Rightarrow> db \<Rightarrow> db \<times> effect list" where
  "sio_voice_leave c room_id st = authenticated_only (voice_leave_body room_id) c st"

record decision_data =
  d_room_id :: "int option"
  d_user_id :: "int option"
  d_accept :: bool

definition speakers :: "db \<Rightarrow> int option \<Rightarrow> nat" where
  "speakers st room_id =
     length (filter (\<lambda>p. Some (vp_room_id p) = room_id \<and> vp_role p = ''speaker'')
               (voice_participants st))"

definition voice_stage_decision_body :: "decision_data \<Rightarrow> int \<times> user \<Rightarrow> db \<Rightarrow> db \<times> effect list" where
  "voice_stage_decision_body d cu st =
     (if d_accept d then
        if bind_fails (room_ids st) (d_room_id d)
        then (st, [])
        else if speakers st (d_room_id d) \<ge> MAX_STAGE
        then (st, [Emit ''voice_stage_full'' [] (str_opt (d_user_id d))])
        else if bind_fails (member_ids st) (d_user_id d)
        then (st, [])
        else
          ((case first_participant st (d_room_id d) (d_user_id d) of
              None \<Rightarrow> st
            | Some vp \<Rightarrow>
                st\<lparr>voice_participants :=
                     update_first (participant_of (d_room_id d) (d_user_id d))
                       (\<lambda>p. p\<lparr>vp_role := ''speaker''\<rparr>) (voice_participants st)\<rparr>),
           [Emit ''voice_stage_granted'' [(''user_id'', jint_opt (d_user_id d))]
              (room_name (d_room_id d))])
      else (st, [Emit ''voice_stage_denied'' [(''user_id'', jint_opt (d_user_id d))]
                   (str_opt (d_user_id d))]))"

definition sio_voice_stage_decision :: "ctx \<Rightarrow> decision_data \<Rightarrow> db \<Rightarrow> db \<times> effect list" where
  "sio_voice_stage_decision c d st = authenticated_only (voice_stage_decision_body d) c st"

section \<open>The HTTP routes\<close>

text \<open>
  The answers of a route: the redirection of \<^verbatim>\<open>login_required\<close>, the answer 400 with
  its message, the answer 500 that Flask gives for an exception that leaves the view, and a
  JSON body.
\<close>

datatype 'a response = Redirect_login | Bad_request string | Server_error | Json 'a

definition room_name_of :: "string option \<Rightarrow> string" where
  "room_name_of name =
     (let n = strip (case name of None \<Rightarrow> ''Room'' | Some s \<Rightarrow> if s = [] then ''Room'' else s)
      in if n = [] then ''Room'' else n)"

definition api_create_room ::
    "ctx \<Rightarrow> string option \<Rightarrow> datetime \<Rightarrow> datetime \<Rightarrow> db \<Rightarrow> db \<times> (int \<times> string) response" where
  "api_create_room c name t_room t_join st =
     (case current_user st c of
        None \<Rightarrow> (st, Redirect_login)
      | Some (me, u) \<Rightarrow>
          let room = \<lparr>vr_id = next_id (map vr_id (voice_rooms st)), vr_name = room_name_of name,
                      vr_created_by = me, vr_created_at = t_room, vr_active = True\<rparr>;
              vp = \<lparr>vp_id = next_id (map vp_id (voice_participants st)), vp_room_id = vr_id room,
                    vp_user_id = me, vp_role = ''host'', vp_joined_at = t_join\<rparr>
          in (st\<lparr>voice_rooms := voice_rooms st @ [room],
                 voice_participants := voice_participants st @ [vp]\<rparr>,
              Json (vr_id room, vr_name room)))"

text \<open>
  \<^verbatim>\<open>api_messages\<close> has no \<^verbatim>\<open>try\<close>: when the driver refuses the recipient id,
  the exception leaves the view. The query of a room binds a string only.
\<close>

datatype history = No_filter | Query_raises | Matching "message list"

definition history_query :: "db \<Rightarrow> int \<Rightarrow> string option \<Rightarrow> int option \<Rightarrow> history" where
  "history_query st me room recipient_id =
     (if truthy_str room
      then Matching (filter (\<lambda>m. m_room m = room) (messages st))
      else if truthy_id recipient_id
      then if \<not> bindable recipient_id then Query_raises
           else Matching
                  (filter (\<lambda>m. (m_sender_id m = me \<and> m_recipient_id m = recipient_id) \<or>
                                (Some (m_sender_id m) = recipient_id \<and> m_recipient_id m = Some me))
                     (messages st))
      else No_filter)"

definition api_messages :: "ctx \<Rightarrow> string option \<Rightarrow> int option \<Rightarrow> db \<Rightarrow> payload list response" where
  "api_messages c room recipient_id st =
     (case current_user st c of
        None \<Rightarrow> Redirect_login
      | Some (me, u) \<Rightarrow>
          (case history_query st me room recipient_id of
             No_filter \<Rightarrow> Bad_request ''room or recipient_id required''
           | Query_raises \<Rightarrow> Server_error
           | Matching q \<Rightarrow> Json (map (message_payload st) (take 100 (sort_key m_created_at q)))))"

section \<open>A small store for concrete runs\<close>

definition ex_users :: "int \<rightharpoonup> user" where
  "ex_users = [1 \<mapsto> \<lparr>username = ''alice'', status = ''online'', coins = 1000\<rparr>,
               2 \<mapsto> \<lparr>username = ''bob'', status = ''online'', coins = 5\<rparr>]"

definition ex_db :: db where
  "ex_db = \<lparr>users = ex_users, messages = [], coin_transactions = [], dm_unlocks = [],
            voice_rooms = [], voice_participants = []\<rparr>"

definition ex_ctx :: "int \<Rightarrow> ctx" where
  "ex_ctx i = \<lparr>login_id = Some i, sess__user_id = None, sess_user_id = None, sid = ''sid''\<rparr>"

definition room_members :: "db \<Rightarrow> int \<Rightarrow> (int \<times> string) list" where
  "room_members st r =
     map (\<lambda>p. (vp_user_id p, vp_role p)) (filter (\<lambda>p. vp_room_id p = r) (voice_participants st))"

definition ex_listener :: "int \<Rightarrow> voice_participant" where
  "ex_listener i =
     \<lparr>vp_id = 100 + i, vp_room_id = 1, vp_user_id = i, vp_role = ''listener'', vp_joined_at = 0\<rparr>"

definition ex_speakers :: "voice_participant list" where
  "ex_speakers =
     map (\<lambda>i. \<lparr>vp_id = i, vp_room_id = 1, vp_user_id = 20 + i, vp_role = ''speaker'',
                vp_joined_at = 0\<rparr>) [1..10]"

definition ex_db_full :: db where
  "ex_db_full = ex_db\<lparr>voice_participants := ex_speakers @ [ex_listener 2]\<rparr>"

definition ex_db_room :: db where
  "ex_db_room = ex_db\<lparr>voice_participants := [ex_listener 2]\<rparr>"

definition ex_db_host :: db where
  "ex_db_host = fst (api_create_room (ex_ctx 1) (Some ''R'') 0 0 ex_db)"

definition accept_2 :: decision_data where
  "accept_2 = \<lparr>d_room_id = Some 1, d_user_id = Some 2, d_accept = True\<rparr>"


definition ex_msg :: "int \<Rightarrow> datetime \<Rightarrow> int \<Rightarrow> int option \<Rightarrow> string option \<Rightarrow> message" where
  "ex_msg i t s r room =
     \<lparr>m_id = i, m_body = ''hi'', m_created_at = t, m_sender_id = s, m_recipient_id = r,
      m_room = room\<rparr>"

definition ex_db_chat :: db where
  "ex_db_chat = ex_db\<lparr>messages :=
     [ex_msg 1 30 1 None (Some ''lobby''), ex_msg 2 10 1 (Some 2) None,
      ex_msg 3 20 2 None (Some ''lobby'')]\<rparr>"

definition ex_db_dm :: db where
  "ex_db_dm = ex_db\<lparr>messages :=
     [ex_msg 1 1 1 (Some 2) None, ex_msg 2 2 1 (Some 2) None, ex_msg 3 3 1 (Some 2) None]\<rparr>"

definition ex_db_replied :: db where
  "ex_db_replied = ex_db_dm\<lparr>messages := messages ex_db_dm @ [ex_msg 4 4 2 (Some 1) None]\<rparr>"

definition ex_db_expired :: db where
  "ex_db_expired = ex_db_dm\<lparr>dm_unlocks :=
     [\<lparr>un_id = 1, un_user_id = 1, un_target_id = 2, un_expires_at = Some 5\<rparr>]\<rparr>"

definition dm_to_2 :: message_data where
  "dm_to_2 = \<lparr>d_body = Some '' hello '', d_recipient_id = Some 2, d_room = None\<rparr>"

definition gift_10 :: coins_data where
  "gift_10 = \<lparr>d_to = Some 2, d_amount = Some (IntLike 10)\<rparr>"

definition big_id :: int where
  "big_id = 9223372036854775808"

section \<open>The gate as it is described\<close>

text \<open>
  The description of the gate counts the messages of the sender to the recipient that are
  strictly later than the recipient's last reply, and takes the minimum timestamp when there
  is no reply. The two definitions below say that directly, without the queries.
\<close>

definition last_reply_time :: "db \<Rightarrow> int \<Rightarrow> int \<Rightarrow> datetime" where
  "last_reply_time st sender recipient =
     (let ts = map m_created_at
                 (filter (\<lambda>m. m_sender_id m = recipient \<and> m_recipient_id m = Some sender)
                    (messages st))
      in if ts = [] then datetime_min else Max (set ts))"

definition unanswered :: "db \<Rightarrow> int \<Rightarrow> int \<Rightarrow> nat" where
  "unanswered st sender recipient =
     length (filter (\<lambda>m. m_sender_id m = sender \<and> m_recipient_id m = Some recipient \<and>
                          last_reply_time st sender recipient < m_created_at m)
               (messages st))"

section \<open>Properties\<close>

lemma ex_current_user_1:
  "current_user ex_db (ex_ctx 1) =
     Some (1, \<lparr>username = ''alice'', status = ''online'', coins = 1000\<rparr>)"
  by (simp add: current_user_def ex_db_def ex_ctx_def ex_users_def)

lemma ex_current_user_2:
  "current_user ex_db (ex_ctx 2) =
     Some (2, \<lparr>username = ''bob'', status = ''online'', coins = 5\<rparr>)"
  by (simp add: current_user_def ex_db_def ex_ctx_def ex_users_def)

subsection \<open>Auxiliary facts\<close>

lemma next_id_fresh: "i \<in> set ids \<Longrightarrow> i < next_id ids"
proof -
  assume "i \<in> set ids"
  then have "i \<le> Max (set (0 # ids))" by (intro Max_ge) auto
  also have "Max (set (0 # ids)) = fold max ids 0" by (rule Max.set_eq_fold)
  finally show ?thesis by (simp add: next_id_def)
qed

lemma length_update_first [simp]: "length (update_first P f xs) = length xs"
  by (induction xs) auto

lemma filter_update_first:
  assumes "\<And>x. P x \<Longrightarrow> P (f x)"
  shows "filter P (update_first P f xs) =
           (case filter P xs of [] \<Rightarrow> [] | p # ps \<Rightarrow> f p # ps)"
  using assms by (induction xs) (auto split: list.splits)

lemma filter_not_update_first:
  assumes "\<And>x. P x \<Longrightarrow> P (f x)"
  shows "filter (\<lambda>x. \<not> P x) (update_first P f xs) = filter (\<lambda>x. \<not> P x) xs"
  using assms by (induction xs) auto

lemma participant_of_role [simp]:
  "participant_of r t (p\<lparr>vp_role := x\<rparr>) = participant_of r t p"
  by (simp add: participant_of_def)

lemma current_user_users: "users st' = users st \<Longrightarrow> current_user st' c = current_user st c"
  by (simp add: current_user_def split: option.splits)

subsection \<open>Gifts of coins\<close>

text \<open>
  C3. A gift of a positive amount that exceeds the payer's balance is refused: the payer gets
  one \<^verbatim>\<open>blocked_message\<close> with the reason \<^verbatim>\<open>Not enough coins.\<close>, and the store
  stays as it was, so neither balance changes, no transaction is appended and no unlock is
  created or refreshed.
\<close>

theorem insufficient_funds:
  assumes "current_user st c = Some (me, payer)"
    and "d_amount d = Some (IntLike amount)"
    and "0 < amount"
    and "coins payer < amount"
  shows "sio_send_coins c d now t_insert st = (st, [blocked ''Not enough coins.'' (str_int me)])"
  using assms
  by (simp add: sio_send_coins_def authenticated_only_def send_coins_body_def py_int_def)

theorem insufficient_funds_witness:
  "sio_send_coins (ex_ctx 2) \<lparr>d_to = Some 1, d_amount = Some (IntLike 10)\<rparr> 0 0 ex_db =
     (ex_db, [blocked ''Not enough coins.'' (str_int 2)])"
  using insufficient_funds [OF ex_current_user_2,
      of "\<lparr>d_to = Some 1, d_amount = Some (IntLike 10)\<rparr>" 10 0 0]
  by simp

text \<open>
  C8, as the code has it. A gift of an amount that is zero or negative (a payload without
  an amount counts as zero) is dropped without a word: the handler returns before it emits
  anything, the store stays as it was, so no balance changes and no unlock is granted.
\<close>

theorem nonpositive_amount_dropped:
  assumes "current_user st c = Some cu"
    and "d_amount d = None \<and> amount = 0 \<or> d_amount d = Some (IntLike amount)"
    and "amount \<le> 0"
  shows "sio_send_coins c d now t_insert st = (st, [])"
  using assms
  by (auto simp add: sio_send_coins_def authenticated_only_def send_coins_body_def py_int_def
      split: prod.splits)

theorem nonpositive_amount_dropped_witness:
  "sio_send_coins (ex_ctx 1) \<lparr>d_to = Some 2, d_amount = Some (IntLike (- 5))\<rparr> 0 0 ex_db =
     (ex_db, [])"
  using nonpositive_amount_dropped [OF ex_current_user_1,
      of "\<lparr>d_to = Some 2, d_amount = Some (IntLike (- 5))\<rparr>" "- 5" 0 0]
  by simp

text \<open>
  C8, as the claim has it, fails: for the amount 0 the sender receives no event at all,
  where the claim promises exactly one with a reason.
\<close>

theorem nonpositive_amount_no_event:
  "sio_send_coins (ex_ctx 1) \<lparr>d_to = Some 2, d_amount = Some (IntLike 0)\<rparr> 0 0 ex_db =
     (ex_db, [])"
  by (simp add: sio_send_coins_def authenticated_only_def send_coins_body_def py_int_def
      ex_current_user_1)

lemma filter_upsert_unlock:
  "filter (\<lambda>u. un_user_id u = a \<and> un_target_id u = b) (upsert_unlock a b e us) =
     (case filter (\<lambda>u. un_user_id u = a \<and> un_target_id u = b) us of
        [] \<Rightarrow> [\<lparr>un_id = next_id (map un_id us), un_user_id = a, un_target_id = b,
                 un_expires_at = Some e\<rparr>]
      | u # rest \<Rightarrow> u\<lparr>un_expires_at := Some e\<rparr> # rest)"
proof (cases "filter (\<lambda>u. un_user_id u = a \<and> un_target_id u = b) us = []")
  case True
  then show ?thesis by (simp add: upsert_unlock_def)
next
  case False
  have "filter (\<lambda>u. un_user_id u = a \<and> un_target_id u = b)
      (update_first (\<lambda>u. un_user_id u = a \<and> un_target_id u = b)
         (\<lambda>u. u\<lparr>un_expires_at := Some e\<rparr>) us) =
    (case filter (\<lambda>u. un_user_id u = a \<and> un_target_id u = b) us of
       [] \<Rightarrow> [] | u # rest \<Rightarrow> u\<lparr>un_expires_at := Some e\<rparr> # rest)"
    by (rule filter_update_first) simp
  with False show ?thesis by (simp add: upsert_unlock_def split: list.splits)
qed

lemma filter_not_upsert_unlock:
  "filter (\<lambda>u. \<not> (un_user_id u = a \<and> un_target_id u = b)) (upsert_unlock a b e us) =
     filter (\<lambda>u. \<not> (un_user_id u = a \<and> un_target_id u = b)) us"
proof (cases "filter (\<lambda>u. un_user_id u = a \<and> un_target_id u = b) us = []")
  case True
  then show ?thesis by (simp add: upsert_unlock_def)
next
  case False
  have "filter (\<lambda>u. \<not> (un_user_id u = a \<and> un_target_id u = b))
      (update_first (\<lambda>u. un_user_id u = a \<and> un_target_id u = b)
         (\<lambda>u. u\<lparr>un_expires_at := Some e\<rparr>) us) =
    filter (\<lambda>u. \<not> (un_user_id u = a \<and> un_target_id u = b)) us"
    by (rule filter_not_update_first) simp
  with False show ?thesis by (simp add: upsert_unlock_def)
qed

lemma upsert_unlock_single:
  assumes "length (filter (\<lambda>u. un_user_id u = a \<and> un_target_id u = b) us) \<le> 1"
  shows "map un_expires_at
           (filter (\<lambda>u. un_user_id u = a \<and> un_target_id u = b) (upsert_unlock a b e us)) =
         [Some e]"
proof (cases "filter (\<lambda>u. un_user_id u = a \<and> un_target_id u = b) us")
  case Nil
  then show ?thesis by (simp add: filter_upsert_unlock)
next
  case (Cons u rest)
  with assms have "rest = []" by simp
  with Cons show ?thesis by (simp add: filter_upsert_unlock)
qed

lemma current_user_me:
  assumes "current_user st c = Some (me, payer)"
  shows "login_id c = Some me \<and> users st me = Some payer"
  using assms by (auto simp add: current_user_def split: option.splits)

lemma send_coins_success:
  assumes "current_user st c = Some (me, payer)"
    and "d_amount d = Some (IntLike amount)" and "0 < amount" and "amount \<le> coins payer"
    and "d_to d = Some rid" and "int64 rid" and "users st rid = Some recipient"
    and "int64 (coins payer)" and "int64 (coins recipient)"
    and "coins recipient + amount \<le> sqlite_int_max"
    and "now + days_30 \<le> datetime_max"
  shows "sio_send_coins c d now t st =
     (st\<lparr>users := (users st)
            (me \<mapsto> payer\<lparr>coins := coins payer - amount\<rparr>,
             rid \<mapsto> (if rid = me then payer else recipient\<lparr>coins := coins recipient + amount\<rparr>)),
         coin_transactions := coin_transactions st @
           [\<lparr>tx_id = next_id (map tx_id (coin_transactions st)), tx_from_id = Some me,
             tx_to_id = Some rid, tx_amount = amount, tx_created_at = t,
             tx_note = Some ''gift''\<rparr>],
         dm_unlocks := upsert_unlock me rid (now + days_30) (dm_unlocks st)\<rparr>,
      [emit_coins_update me (if rid = me then coins payer else coins payer - amount),
       emit_coins_update rid (if rid = me then coins payer else coins recipient + amount)])"
proof -
  have range: "int64 amount" "int64 (coins payer - amount)" "int64 (coins recipient + amount)"
    using assms(3,4,8,9,10) by (auto simp add: int64_def)
  show ?thesis
  proof (cases "rid = me")
  case True
  with assms(1,7) have "recipient = payer" using current_user_me [OF assms(1)] by simp
  with True assms range show ?thesis
    by (simp add: sio_send_coins_def authenticated_only_def send_coins_body_def py_int_def
        bindable_def Let_def)
next
  case False
  with assms range show ?thesis
    by (simp add: sio_send_coins_def authenticated_only_def send_coins_body_def py_int_def
        bindable_def Let_def)
  qed
qed

lemma send_coins_unbindable:
  assumes "current_user st c = Some (me, payer)"
    and "d_amount d = Some (IntLike amount)" and "0 < amount" and "amount \<le> coins payer"
    and "d_to d = Some rid" and "\<not> int64 rid"
  shows "sio_send_coins c d now t st = (st, [blocked ''Error sending coins.'' (str_int me)])"
  using assms
  by (simp add: sio_send_coins_def authenticated_only_def send_coins_body_def py_int_def
      bindable_def)

text \<open>
  C4. A gift succeeds when the caller is logged in, the amount is positive and at most the
  payer's balance, the payee exists, the two balances are stored values, and neither the
  credited balance nor the new expiry leaves the range of its column. Then the payer is debited and the payee credited by the
  amount (for a gift to oneself the two cancel), one transaction is appended, the rows of
  the pair in the table of unlocks are the old ones with the first one's expiry set to now
  plus 30 days, or one new row with that expiry when there was none, and no other unlock
  changes. So a table with at most one row for the pair has exactly one afterwards, with the
  expiry now plus 30 days, and a second gift between the same pair that succeeds leaves it
  with exactly one again, with the expiry of the second gift.
\<close>

theorem successful_transfer:
  assumes "current_user st c = Some (me, payer)"
    and "d_amount d = Some (IntLike amount)" and "0 < amount" and "amount \<le> coins payer"
    and "d_to d = Some rid" and "int64 rid" and "users st rid = Some recipient"
    and "int64 (coins payer)" and "int64 (coins recipient)"
    and "coins recipient + amount \<le> sqlite_int_max"
    and "now + days_30 \<le> datetime_max"
  shows "(rid \<noteq> me \<longrightarrow>
            users (fst (sio_send_coins c d now t st)) =
              (users st)(me \<mapsto> payer\<lparr>coins := coins payer - amount\<rparr>,
                         rid \<mapsto> recipient\<lparr>coins := coins recipient + amount\<rparr>)) \<and>
         (rid = me \<longrightarrow> users (fst (sio_send_coins c d now t st)) = users st) \<and>
         coin_transactions (fst (sio_send_coins c d now t st)) =
           coin_transactions st @
             [\<lparr>tx_id = next_id (map tx_id (coin_transactions st)), tx_from_id = Some me,
               tx_to_id = Some rid, tx_amount = amount, tx_created_at = t,
               tx_note = Some ''gift''\<rparr>] \<and>
         filter (\<lambda>u. un_user_id u = me \<and> un_target_id u = rid)
             (dm_unlocks (fst (sio_send_coins c d now t st))) =
           (case filter (\<lambda>u. un_user_id u = me \<and> un_target_id u = rid) (dm_unlocks st) of
              [] \<Rightarrow> [\<lparr>un_id = next_id (map un_id (dm_unlocks st)), un_user_id = me,
                       un_target_id = rid, un_expires_at = Some (now + days_30)\<rparr>]
            | u # rest \<Rightarrow> u\<lparr>un_expires_at := Some (now + days_30)\<rparr> # rest) \<and>
         filter (\<lambda>u. \<not> (un_user_id u = me \<and> un_target_id u = rid))
             (dm_unlocks (fst (sio_send_coins c d now t st))) =
           filter (\<lambda>u. \<not> (un_user_id u = me \<and> un_target_id u = rid)) (dm_unlocks st) \<and>
         (length (filter (\<lambda>u. un_user_id u = me \<and> un_target_id u = rid) (dm_unlocks st)) \<le> 1 \<longrightarrow>
            map un_expires_at
                (filter (\<lambda>u. un_user_id u = me \<and> un_target_id u = rid)
                   (dm_unlocks (fst (sio_send_coins c d now t st)))) =
              [Some (now + days_30)] \<and>
            (\<forall>d2 amount2 now2 t2 payer2 recipient2.
               users (fst (sio_send_coins c d now t st)) me = Some payer2 \<and>
               users (fst (sio_send_coins c d now t st)) rid = Some recipient2 \<and>
               d_amount d2 = Some (IntLike amount2) \<and> 0 < amount2 \<and> amount2 \<le> coins payer2 \<and>
               d_to d2 = Some rid \<and> int64 (coins payer2) \<and> int64 (coins recipient2) \<and>
               coins recipient2 + amount2 \<le> sqlite_int_max \<and>
               now2 + days_30 \<le> datetime_max \<longrightarrow>
                 map un_expires_at
                   (filter (\<lambda>u. un_user_id u = me \<and> un_target_id u = rid)
                      (dm_unlocks
                         (fst (sio_send_coins c d2 now2 t2
                                 (fst (sio_send_coins c d now t st)))))) =
                 [Some (now2 + days_30)]))"
proof -
  let ?P = "\<lambda>u. un_user_id u = me \<and> un_target_id u = rid"
  let ?st1 = "fst (sio_send_coins c d now t st)"
  note eq = send_coins_success [OF assms, of t]
  note me = current_user_me [OF assms(1)]
  have u1: "rid \<noteq> me \<longrightarrow> users ?st1 =
      (users st)(me \<mapsto> payer\<lparr>coins := coins payer - amount\<rparr>,
                 rid \<mapsto> recipient\<lparr>coins := coins recipient + amount\<rparr>)"
    by (simp add: eq)
  have u2: "rid = me \<longrightarrow> users ?st1 = users st"
    using me by (auto simp add: eq)
  have tx: "coin_transactions ?st1 = coin_transactions st @
      [\<lparr>tx_id = next_id (map tx_id (coin_transactions st)), tx_from_id = Some me,
        tx_to_id = Some rid, tx_amount = amount, tx_created_at = t, tx_note = Some ''gift''\<rparr>]"
    by (simp add: eq)
  have un: "dm_unlocks ?st1 = upsert_unlock me rid (now + days_30) (dm_unlocks st)"
    by (simp add: eq)
  have f1: "filter ?P (dm_unlocks ?st1) =
      (case filter ?P (dm_unlocks st) of
         [] \<Rightarrow> [\<lparr>un_id = next_id (map un_id (dm_unlocks st)), un_user_id = me,
                  un_target_id = rid, un_expires_at = Some (now + days_30)\<rparr>]
       | u # rest \<Rightarrow> u\<lparr>un_expires_at := Some (now + days_30)\<rparr> # rest)"
    by (simp only: un filter_upsert_unlock)
  have f2: "filter (\<lambda>u. \<not> ?P u) (dm_unlocks ?st1) = filter (\<lambda>u. \<not> ?P u) (dm_unlocks st)"
    by (simp only: un filter_not_upsert_unlock)
  have one: "map un_expires_at (filter ?P (dm_unlocks ?st1)) = [Some (now + days_30)]"
    if "length (filter ?P (dm_unlocks st)) \<le> 1"
    by (simp only: un upsert_unlock_single [OF that])
  have two: "map un_expires_at
      (filter ?P (dm_unlocks (fst (sio_send_coins c d2 now2 t2 ?st1)))) = [Some (now2 + days_30)]"
    if le: "length (filter ?P (dm_unlocks st)) \<le> 1"
      and p2: "users ?st1 me = Some payer2" and r2: "users ?st1 rid = Some recipient2"
      and a2: "d_amount d2 = Some (IntLike amount2)" "0 < amount2" "amount2 \<le> coins payer2"
      and t2: "d_to d2 = Some rid"
      and c2: "int64 (coins payer2)" "int64 (coins recipient2)"
        "coins recipient2 + amount2 \<le> sqlite_int_max"
      and n2: "now2 + days_30 \<le> datetime_max"
    for d2 amount2 now2 t2 payer2 recipient2
  proof -
    have cu2: "current_user ?st1 c = Some (me, payer2)"
      using me p2 by (simp add: current_user_def)
    have "length (map un_expires_at (filter ?P (dm_unlocks ?st1))) =
        length [Some (now + days_30)]"
      by (simp only: one [OF le])
    then have le1: "length (filter ?P (dm_unlocks ?st1)) \<le> 1" by simp
    have "dm_unlocks (fst (sio_send_coins c d2 now2 t2 ?st1)) =
        upsert_unlock me rid (now2 + days_30) (dm_unlocks ?st1)"
      by (simp add: send_coins_success [OF cu2 a2 t2 assms(6) r2 c2 n2, of t2])
    then show ?thesis by (simp only: upsert_unlock_single [OF le1])
  qed
  from u1 u2 tx f1 f2 one two show ?thesis by blast
qed

theorem successful_transfer_witness:
  "users (fst (sio_send_coins (ex_ctx 1) gift_10 0 0 ex_db)) 1 =
     Some \<lparr>username = ''alice'', status = ''online'', coins = 990\<rparr> \<and>
   users (fst (sio_send_coins (ex_ctx 1) gift_10 0 0 ex_db)) 2 =
     Some \<lparr>username = ''bob'', status = ''online'', coins = 15\<rparr> \<and>
   map tx_amount (coin_transactions (fst (sio_send_coins (ex_ctx 1) gift_10 0 0 ex_db))) = [10] \<and>
   map un_expires_at
     (filter (\<lambda>u. un_user_id u = 1 \<and> un_target_id u = 2)
        (dm_unlocks (fst (sio_send_coins (ex_ctx 1) gift_10 0 0 ex_db)))) = [Some (0 + days_30)] \<and>
   map un_expires_at
     (filter (\<lambda>u. un_user_id u = 1 \<and> un_target_id u = 2)
        (dm_unlocks (fst (sio_send_coins (ex_ctx 1) gift_10 7 7
           (fst (sio_send_coins (ex_ctx 1) gift_10 0 0 ex_db)))))) = [Some (7 + days_30)]"
proof -
  have h: "d_amount gift_10 = Some (IntLike 10)" "(0::int) < 10"
    "(10::int) \<le> coins \<lparr>username = ''alice'', status = ''online'', coins = 1000\<rparr>"
    "d_to gift_10 = Some 2" "int64 2"
    "users ex_db 2 = Some \<lparr>username = ''bob'', status = ''online'', coins = 5\<rparr>"
    "int64 (coins \<lparr>username = ''alice'', status = ''online'', coins = 1000\<rparr>)"
    "int64 (coins \<lparr>username = ''bob'', status = ''online'', coins = 5\<rparr>)"
    "coins \<lparr>username = ''bob'', status = ''online'', coins = 5\<rparr> + 10 \<le> sqlite_int_max"
    by (simp_all add: gift_10_def int64_def sqlite_int_max_def ex_db_def ex_users_def)
  have n0: "0 + days_30 \<le> datetime_max" by (simp add: days_30_def datetime_max_def)
  have n7: "7 + days_30 \<le> datetime_max" by (simp add: days_30_def datetime_max_def)
  have e: "length (filter (\<lambda>u. un_user_id u = 1 \<and> un_target_id u = 2) (dm_unlocks ex_db)) \<le> 1"
    by (simp add: ex_db_def)
  have ne: "(2::int) \<noteq> 1" by simp
  have txs: "coin_transactions ex_db = []" by (simp add: ex_db_def)
  note t = successful_transfer [OF ex_current_user_1 h n0, of 0]
  have us: "users (fst (sio_send_coins (ex_ctx 1) gift_10 0 0 ex_db)) =
      (users ex_db)(1 \<mapsto> \<lparr>username = ''alice'', status = ''online'', coins = 1000\<rparr>
                            \<lparr>coins := coins \<lparr>username = ''alice'', status = ''online'', coins = 1000\<rparr> - 10\<rparr>,
                    2 \<mapsto> \<lparr>username = ''bob'', status = ''online'', coins = 5\<rparr>
                            \<lparr>coins := coins \<lparr>username = ''bob'', status = ''online'', coins = 5\<rparr> + 10\<rparr>)"
    using t ne by blast
  have w1: "users (fst (sio_send_coins (ex_ctx 1) gift_10 0 0 ex_db)) 1 =
      Some \<lparr>username = ''alice'', status = ''online'', coins = 990\<rparr>"
    by (simp add: us)
  have w2: "users (fst (sio_send_coins (ex_ctx 1) gift_10 0 0 ex_db)) 2 =
      Some \<lparr>username = ''bob'', status = ''online'', coins = 15\<rparr>"
    by (simp add: us)
  have "coin_transactions (fst (sio_send_coins (ex_ctx 1) gift_10 0 0 ex_db)) =
      coin_transactions ex_db @
        [\<lparr>tx_id = next_id (map tx_id (coin_transactions ex_db)), tx_from_id = Some 1,
          tx_to_id = Some 2, tx_amount = 10, tx_created_at = 0, tx_note = Some ''gift''\<rparr>]"
    using t by blast
  then have w3: "map tx_amount (coin_transactions (fst (sio_send_coins (ex_ctx 1) gift_10 0 0 ex_db))) = [10]"
    by (simp add: txs)
  have w4: "map un_expires_at
      (filter (\<lambda>u. un_user_id u = 1 \<and> un_target_id u = 2)
         (dm_unlocks (fst (sio_send_coins (ex_ctx 1) gift_10 0 0 ex_db)))) = [Some (0 + days_30)]"
    using t e by blast
  have g2: "d_amount gift_10 = Some (IntLike 10) \<and> (0::int) < 10 \<and>
      (10::int) \<le> coins \<lparr>username = ''alice'', status = ''online'', coins = 990\<rparr> \<and>
      d_to gift_10 = Some 2 \<and>
      int64 (coins \<lparr>username = ''alice'', status = ''online'', coins = 990\<rparr>) \<and>
      int64 (coins \<lparr>username = ''bob'', status = ''online'', coins = 15\<rparr>) \<and>
      coins \<lparr>username = ''bob'', status = ''online'', coins = 15\<rparr> + 10 \<le> sqlite_int_max \<and>
      7 + days_30 \<le> datetime_max"
    using h n7 by (simp add: sqlite_int_max_def int64_def)
  have w5: "map un_expires_at
      (filter (\<lambda>u. un_user_id u = 1 \<and> un_target_id u = 2)
         (dm_unlocks (fst (sio_send_coins (ex_ctx 1) gift_10 7 7
            (fst (sio_send_coins (ex_ctx 1) gift_10 0 0 ex_db)))))) = [Some (7 + days_30)]"
    using t e w1 w2 g2 by blast
  from w1 w2 w3 w4 w5 show ?thesis by blast
qed

subsection \<open>Voice rooms\<close>

lemma speakers_bound: "0 < speakers st room_id \<Longrightarrow> \<not> bind_fails (room_ids st) room_id"
proof -
  assume "0 < speakers st room_id"
  then have "filter (\<lambda>p. Some (vp_room_id p) = room_id \<and> vp_role p = ''speaker'')
      (voice_participants st) \<noteq> []"
    by (auto simp add: speakers_def)
  then obtain p where "p \<in> set (voice_participants st)" and "Some (vp_room_id p) = room_id"
    by (auto simp add: filter_empty_conv)
  then show ?thesis by (auto simp add: bind_fails_def room_ids_def)
qed

lemma first_participant_bound:
  assumes "first_participant st room_id user_id = Some vp"
  shows "\<not> bind_fails (room_ids st) room_id \<and> \<not> bind_fails (member_ids st) user_id"
proof -
  from assms have "filter (participant_of room_id user_id) (voice_participants st) \<noteq> []"
    by (auto simp add: first_participant_def split: list.splits)
  then obtain p where "p \<in> set (voice_participants st)" and "participant_of room_id user_id p"
    by (auto simp add: filter_empty_conv)
  then show ?thesis
    by (auto simp add: bind_fails_def room_ids_def member_ids_def participant_of_def)
qed

lemma bindable_bind [simp]: "bindable v \<Longrightarrow> \<not> bind_fails column v"
  by (simp add: bindable_def bind_fails_def split: option.splits)

text \<open>
  C2. An accepted stage decision by an authenticated caller, in a room that already has ten
  or more rows with the role \<^verbatim>\<open>speaker\<close>, emits \<^verbatim>\<open>voice_stage_full\<close> to the
  target's own room and leaves the store, hence every role, as it was. Below the cap, when
  the target has a row in the room, the row that every lookup of the pair finds gets the
  role \<^verbatim>\<open>speaker\<close>, no other row and no other table changes, and
  \<^verbatim>\<open>voice_stage_granted\<close> goes to the voice room.
\<close>

theorem stage_decision_accept:
  assumes "current_user st c = Some cu" and "d_accept d"
  shows "(10 \<le> speakers st (d_room_id d) \<longrightarrow>
            sio_voice_stage_decision c d st =
              (st, [Emit ''voice_stage_full'' [] (str_opt (d_user_id d))])) \<and>
         (speakers st (d_room_id d) < 10 \<longrightarrow>
            (\<forall>vp. first_participant st (d_room_id d) (d_user_id d) = Some vp \<longrightarrow>
               snd (sio_voice_stage_decision c d st) =
                 [Emit ''voice_stage_granted'' [(''user_id'', jint_opt (d_user_id d))]
                    (room_name (d_room_id d))] \<and>
               first_participant (fst (sio_voice_stage_decision c d st)) (d_room_id d) (d_user_id d) =
                 Some (vp\<lparr>vp_role := ''speaker''\<rparr>) \<and>
               filter (\<lambda>p. \<not> participant_of (d_room_id d) (d_user_id d) p)
                   (voice_participants (fst (sio_voice_stage_decision c d st))) =
                 filter (\<lambda>p. \<not> participant_of (d_room_id d) (d_user_id d) p)
                   (voice_participants st) \<and>
               length (voice_participants (fst (sio_voice_stage_decision c d st))) =
                 length (voice_participants st) \<and>
               (fst (sio_voice_stage_decision c d st))\<lparr>voice_participants := voice_participants st\<rparr> = st))"
proof (intro conjI impI allI)
  assume "10 \<le> speakers st (d_room_id d)"
  then show "sio_voice_stage_decision c d st =
      (st, [Emit ''voice_stage_full'' [] (str_opt (d_user_id d))])"
    using assms speakers_bound [of st "d_room_id d"]
    by (simp add: sio_voice_stage_decision_def authenticated_only_def
        voice_stage_decision_body_def MAX_STAGE_def)
next
  fix vp
  assume lt: "speakers st (d_room_id d) < 10"
    and fp: "first_participant st (d_room_id d) (d_user_id d) = Some vp"
  have eq: "sio_voice_stage_decision c d st =
      (st\<lparr>voice_participants :=
            update_first (participant_of (d_room_id d) (d_user_id d))
              (\<lambda>p. p\<lparr>vp_role := ''speaker''\<rparr>) (voice_participants st)\<rparr>,
       [Emit ''voice_stage_granted'' [(''user_id'', jint_opt (d_user_id d))]
          (room_name (d_room_id d))])"
    using assms lt fp first_participant_bound [OF fp]
    by (simp add: sio_voice_stage_decision_def authenticated_only_def
        voice_stage_decision_body_def MAX_STAGE_def)
  show "snd (sio_voice_stage_decision c d st) =
      [Emit ''voice_stage_granted'' [(''user_id'', jint_opt (d_user_id d))]
         (room_name (d_room_id d))]"
    by (simp add: eq)
  show "first_participant (fst (sio_voice_stage_decision c d st)) (d_room_id d) (d_user_id d) =
      Some (vp\<lparr>vp_role := ''speaker''\<rparr>)"
    using fp
    by (auto simp add: eq first_participant_def filter_update_first split: list.splits)
  show "filter (\<lambda>p. \<not> participant_of (d_room_id d) (d_user_id d) p)
        (voice_participants (fst (sio_voice_stage_decision c d st))) =
      filter (\<lambda>p. \<not> participant_of (d_room_id d) (d_user_id d) p) (voice_participants st)"
    by (simp add: eq filter_not_update_first)
  show "length (voice_participants (fst (sio_voice_stage_decision c d st))) =
      length (voice_participants st)"
    by (simp add: eq)
  show "(fst (sio_voice_stage_decision c d st))\<lparr>voice_participants := voice_participants st\<rparr> = st"
    by (simp add: eq)
qed

theorem stage_decision_accept_witness:
  "sio_voice_stage_decision (ex_ctx 1) accept_2 ex_db_full =
     (ex_db_full, [Emit ''voice_stage_full'' [] (str_opt (d_user_id accept_2))]) \<and>
   snd (sio_voice_stage_decision (ex_ctx 1) accept_2 ex_db_room) =
     [Emit ''voice_stage_granted'' [(''user_id'', jint_opt (d_user_id accept_2))]
        (room_name (d_room_id accept_2))] \<and>
   first_participant (fst (sio_voice_stage_decision (ex_ctx 1) accept_2 ex_db_room))
       (d_room_id accept_2) (d_user_id accept_2) =
     Some ((ex_listener 2)\<lparr>vp_role := ''speaker''\<rparr>)"
proof -
  have cu_full: "current_user ex_db_full (ex_ctx 1) =
      Some (1, \<lparr>username = ''alice'', status = ''online'', coins = 1000\<rparr>)"
    by code_simp
  have cu_room: "current_user ex_db_room (ex_ctx 1) =
      Some (1, \<lparr>username = ''alice'', status = ''online'', coins = 1000\<rparr>)"
    by code_simp
  have acc: "d_accept accept_2" by code_simp
  have full: "10 \<le> speakers ex_db_full (d_room_id accept_2)" by code_simp
  have free: "speakers ex_db_room (d_room_id accept_2) < 10" by code_simp
  have row: "first_participant ex_db_room (d_room_id accept_2) (d_user_id accept_2) =
      Some (ex_listener 2)"
    by code_simp
  show ?thesis
    using stage_decision_accept [OF cu_full acc] stage_decision_accept [OF cu_room acc]
      full free row
    by simp
qed



text \<open>
  C6. For an authenticated user and a room id within the 64 bits of the column,
  \<^verbatim>\<open>voice_leave\<close> removes every row of
  the pair whatever its role, and a \<^verbatim>\<open>voice_join\<close> that follows leaves exactly one
  row for the pair, with the role \<^verbatim>\<open>listener\<close>, which is also the role it announces
  to the room.
\<close>

theorem leave_then_join:
  assumes "current_user st c = Some (me, u)" and "int64 r"
  shows "filter (participant_of (Some r) (Some me))
           (voice_participants (fst (sio_voice_leave c (Some r) st))) = [] \<and>
         map vp_role (filter (participant_of (Some r) (Some me))
           (voice_participants
              (fst (sio_voice_join c (Some r) t (fst (sio_voice_leave c (Some r) st)))))) =
           [''listener''] \<and>
         snd (sio_voice_join c (Some r) t (fst (sio_voice_leave c (Some r) st))) =
           [JoinRoom (room_name (Some r)),
            Emit ''voice_user_joined'' [(''user_id'', JInt me), (''role'', JStr ''listener'')]
              (room_name (Some r))]"
proof -
  let ?st1 = "fst (sio_voice_leave c (Some r) st)"
  have st1: "?st1 = st\<lparr>voice_participants :=
      filter (\<lambda>p. \<not> participant_of (Some r) (Some me) p) (voice_participants st)\<rparr>"
    using assms
    by (simp add: sio_voice_leave_def authenticated_only_def voice_leave_body_def bindable_def)
  have cu: "current_user ?st1 c = Some (me, u)"
    using assms(1) current_user_users [of ?st1 st c] by (simp add: st1)
  have none: "filter (participant_of (Some r) (Some me)) (voice_participants ?st1) = []"
    by (simp add: st1)
  have fp: "first_participant ?st1 (Some r) (Some me) = None"
    using none by (simp add: first_participant_def)
  show ?thesis
    using cu none fp assms(2)
    by (simp add: sio_voice_join_def authenticated_only_def voice_join_body_def
        participant_of_def bindable_def)
qed

theorem leave_then_join_witness:
  "room_members ex_db_host 1 = [(1, ''host'')] \<and>
   filter (participant_of (Some 1) (Some 1))
     (voice_participants (fst (sio_voice_leave (ex_ctx 1) (Some 1) ex_db_host))) = [] \<and>
   map vp_role (filter (participant_of (Some 1) (Some 1))
     (voice_participants
        (fst (sio_voice_join (ex_ctx 1) (Some 1) 5
           (fst (sio_voice_leave (ex_ctx 1) (Some 1) ex_db_host)))))) = [''listener'']"
proof -
  have cu: "current_user ex_db_host (ex_ctx 1) =
      Some (1, \<lparr>username = ''alice'', status = ''online'', coins = 1000\<rparr>)"
    by code_simp
  have host: "room_members ex_db_host 1 = [(1, ''host'')]" by code_simp
  have b: "int64 1" by code_simp
  show ?thesis
    using leave_then_join [OF cu b, of 5] host by simp
qed

lemma stage_decision_unbindable:
  assumes "current_user st c = Some cu" and "d_accept d"
    and "bind_fails (room_ids st) (d_room_id d) \<or>
         speakers st (d_room_id d) < 10 \<and> bind_fails (member_ids st) (d_user_id d)"
  shows "sio_voice_stage_decision c d st = (st, [])"
  using assms speakers_bound [of st "d_room_id d"]
  by (auto simp add: sio_voice_stage_decision_def authenticated_only_def
      voice_stage_decision_body_def MAX_STAGE_def)

lemma voice_join_unbindable:
  assumes "current_user st c = Some (me, u)" and "bind_fails (room_ids st) room_id"
  shows "sio_voice_join c room_id t st =
           (st, [JoinRoom (room_name room_id), blocked ''Error joining voice room.'' (str_int me)])"
  using assms by (simp add: sio_voice_join_def authenticated_only_def voice_join_body_def)

lemma voice_leave_unbindable:
  assumes "current_user st c = Some (me, u)" and "bind_fails (room_ids st) room_id"
  shows "sio_voice_leave c room_id st = (st, [LeaveRoom (room_name room_id)])"
  using assms by (simp add: sio_voice_leave_def authenticated_only_def voice_leave_body_def)

lemma bind_fails_big_id: "bind_fails (room_ids ex_db) (Some big_id)"
  by (simp add: bind_fails_def int64_def sqlite_int_max_def big_id_def room_ids_def ex_db_def)

lemma api_create_room_auth:
  assumes "current_user st c = Some (me, u)"
  shows "api_create_room c name t_room t_join st =
     (st\<lparr>voice_rooms := voice_rooms st @
           [\<lparr>vr_id = next_id (map vr_id (voice_rooms st)), vr_name = room_name_of name,
             vr_created_by = me, vr_created_at = t_room, vr_active = True\<rparr>],
         voice_participants := voice_participants st @
           [\<lparr>vp_id = next_id (map vp_id (voice_participants st)),
             vp_room_id = next_id (map vr_id (voice_rooms st)),
             vp_user_id = me, vp_role = ''host'', vp_joined_at = t_join\<rparr>]\<rparr>,
      Json (next_id (map vr_id (voice_rooms st)), room_name_of name))"
  using assms by (simp add: api_create_room_def Let_def)

lemma room_members_append:
  "room_members (st\<lparr>voice_rooms := rs, voice_participants := voice_participants st @ [p]\<rparr>) r =
     room_members st r @ (if vp_room_id p = r then [(vp_user_id p, vp_role p)] else [])"
  by (simp add: room_members_def)

lemma room_members_fresh:
  assumes "\<forall>p \<in> set (voice_participants st). vp_room_id p \<in> vr_id ` set (voice_rooms st)"
  shows "room_members st (next_id (map vr_id (voice_rooms st))) = []"
proof -
  have "vp_room_id p \<noteq> next_id (map vr_id (voice_rooms st))"
    if "p \<in> set (voice_participants st)" for p
  proof -
    from that assms have "vp_room_id p \<in> set (map vr_id (voice_rooms st))" by simp
    then show ?thesis using next_id_fresh by fastforce
  qed
  then show ?thesis by (simp add: room_members_def filter_empty_conv)
qed

text \<open>
  C9, as the code has it. Creating a room answers with a room id that no room had before
  and appends one row for the creator, with the role \<^verbatim>\<open>host\<close>, to the participants
  of that id. The creator is the only participant of the new room when no row carried the
  new id before, in particular when every row of a participant refers to a room that exists.
\<close>

theorem create_room_host:
  assumes "current_user st c = Some (me, u)"
  shows "snd (api_create_room c name t_room t_join st) =
           Json (next_id (map vr_id (voice_rooms st)), room_name_of name) \<and>
         next_id (map vr_id (voice_rooms st)) \<notin> vr_id ` set (voice_rooms st) \<and>
         map vr_id (voice_rooms (fst (api_create_room c name t_room t_join st))) =
           map vr_id (voice_rooms st) @ [next_id (map vr_id (voice_rooms st))] \<and>
         room_members (fst (api_create_room c name t_room t_join st))
             (next_id (map vr_id (voice_rooms st))) =
           room_members st (next_id (map vr_id (voice_rooms st))) @ [(me, ''host'')] \<and>
         ((\<forall>p \<in> set (voice_participants st). vp_room_id p \<in> vr_id ` set (voice_rooms st)) \<longrightarrow>
            room_members (fst (api_create_room c name t_room t_join st))
              (next_id (map vr_id (voice_rooms st))) = [(me, ''host'')])"
proof -
  let ?r = "next_id (map vr_id (voice_rooms st))"
  note eq = api_create_room_auth [OF assms, of name t_room t_join]
  have fresh: "?r \<notin> vr_id ` set (voice_rooms st)"
    using next_id_fresh [of ?r "map vr_id (voice_rooms st)"] by auto
  have c1: "snd (api_create_room c name t_room t_join st) = Json (?r, room_name_of name)"
    by (simp add: eq)
  have c3: "map vr_id (voice_rooms (fst (api_create_room c name t_room t_join st))) =
      map vr_id (voice_rooms st) @ [?r]"
    by (simp add: eq)
  have c4: "room_members (fst (api_create_room c name t_room t_join st)) ?r =
      room_members st ?r @ [(me, ''host'')]"
    by (simp add: eq room_members_append)
  have c5: "room_members (fst (api_create_room c name t_room t_join st)) ?r = [(me, ''host'')]"
    if "\<forall>p \<in> set (voice_participants st). vp_room_id p \<in> vr_id ` set (voice_rooms st)"
    using c4 room_members_fresh [OF that] by simp
  from c1 fresh c3 c4 c5 show ?thesis by blast
qed

theorem create_room_host_witness:
  "snd (api_create_room (ex_ctx 1) (Some ''R'') 0 0 ex_db) = Json (1, ''R'') \<and>
   room_members (fst (api_create_room (ex_ctx 1) (Some ''R'') 0 0 ex_db)) 1 = [(1, ''host'')]"
proof -
  have fk: "\<forall>p \<in> set (voice_participants ex_db). vp_room_id p \<in> vr_id ` set (voice_rooms ex_db)"
    by (simp add: ex_db_def)
  have r: "next_id (map vr_id (voice_rooms ex_db)) = 1" by code_simp
  have n: "room_name_of (Some ''R'') = ''R''" by code_simp
  from create_room_host [OF ex_current_user_1, of "Some ''R''" 0 0] fk
  have "snd (api_create_room (ex_ctx 1) (Some ''R'') 0 0 ex_db) =
          Json (next_id (map vr_id (voice_rooms ex_db)), room_name_of (Some ''R'')) \<and>
        room_members (fst (api_create_room (ex_ctx 1) (Some ''R'') 0 0 ex_db))
          (next_id (map vr_id (voice_rooms ex_db))) = [(1, ''host'')]"
    by blast
  then show ?thesis by (simp only: r n)
qed

text \<open>
  C9, as the claim has it, fails: \<^verbatim>\<open>voice_join\<close> does not ask whether the room
  exists, so the user 2 can hold a row for the room id 1 before any room exists; the room
  that the user 1 then creates gets the id 1 and starts with two participants.
\<close>

theorem create_room_two_members:
  "room_members (fst (api_create_room (ex_ctx 1) (Some ''R'') 0 0
       (fst (sio_voice_join (ex_ctx 2) (Some 1) 0 ex_db)))) 1 =
     [(2, ''listener''), (1, ''host'')] \<and>
   snd (api_create_room (ex_ctx 1) (Some ''R'') 0 0
       (fst (sio_voice_join (ex_ctx 2) (Some 1) 0 ex_db))) = Json (1, ''R'')"
  by code_simp

subsection \<open>Message history\<close>

lemma sorted_take_drop_le:
  assumes "sorted (map f xs)" and "a \<in> set (take n xs)" and "b \<in> set (drop n xs)"
  shows "f a \<le> f b"
proof -
  have "sorted (map f (take n xs) @ map f (drop n xs))"
    using assms(1) by (simp flip: map_append)
  then show ?thesis using assms(2,3) by (auto simp add: sorted_append)
qed

text \<open>
  C7, as the code has it. For a logged-in caller, a history request with neither a room nor
  a recipient id (an empty room and a recipient id of 0 count as missing) is refused with
  \<^verbatim>\<open>room or recipient_id required\<close>. A request with a room is answered from the
  messages of that room, whether or not a recipient id comes with it; a request with a
  recipient id alone is answered from the messages between the caller and that user when
  the id is within the 64 bits of the column, and fails with the answer 500 when it is not.
  An answer lists the rows in ascending order of creation time and holds the 100 oldest of them
  when there are more: its length is the smaller of 100 and the number of matching rows,
  every row in it is a matching row, and no row left out is older than a row in it.
\<close>

theorem message_history:
  assumes "current_user st c = Some (me, u)"
  shows "(\<not> truthy_str room \<and> \<not> truthy_id rid \<longrightarrow>
            api_messages c room rid st = Bad_request ''room or recipient_id required'') \<and>
         (truthy_str room \<longrightarrow>
            api_messages c room rid st =
              Json (map (message_payload st)
                (take 100 (sort_key m_created_at
                   (filter (\<lambda>m. m_room m = room) (messages st)))))) \<and>
         (\<not> truthy_str room \<and> truthy_id rid \<and> \<not> bindable rid \<longrightarrow>
            api_messages c room rid st = Server_error) \<and>
         (\<not> truthy_str room \<and> truthy_id rid \<and> bindable rid \<longrightarrow>
            api_messages c room rid st =
              Json (map (message_payload st)
                (take 100 (sort_key m_created_at
                   (filter (\<lambda>m. (m_sender_id m = me \<and> m_recipient_id m = rid) \<or>
                                 (Some (m_sender_id m) = rid \<and> m_recipient_id m = Some me))
                      (messages st)))))) \<and>
         sorted (map m_created_at (take 100 (sort_key m_created_at q))) \<and>
         length (take 100 (sort_key m_created_at q)) = min 100 (length q) \<and>
         set (take 100 (sort_key m_created_at q)) \<subseteq> set q \<and>
         (\<forall>m \<in> set (drop 100 (sort_key m_created_at q)).
            \<forall>m' \<in> set (take 100 (sort_key m_created_at q)). m_created_at m' \<le> m_created_at m)"
proof -
  have a: "\<not> truthy_str room \<and> \<not> truthy_id rid \<longrightarrow>
      api_messages c room rid st = Bad_request ''room or recipient_id required''"
    using assms by (simp add: api_messages_def history_query_def)
  have b: "truthy_str room \<longrightarrow>
      api_messages c room rid st =
        Json (map (message_payload st)
          (take 100 (sort_key m_created_at (filter (\<lambda>m. m_room m = room) (messages st)))))"
    using assms by (simp add: api_messages_def history_query_def)
  have c': "\<not> truthy_str room \<and> truthy_id rid \<and> \<not> bindable rid \<longrightarrow>
      api_messages c room rid st = Server_error"
    using assms by (simp add: api_messages_def history_query_def)
  have c: "\<not> truthy_str room \<and> truthy_id rid \<and> bindable rid \<longrightarrow>
      api_messages c room rid st =
        Json (map (message_payload st)
          (take 100 (sort_key m_created_at
             (filter (\<lambda>m. (m_sender_id m = me \<and> m_recipient_id m = rid) \<or>
                           (Some (m_sender_id m) = rid \<and> m_recipient_id m = Some me))
                (messages st)))))"
    using assms by (simp add: api_messages_def history_query_def)
  have s: "sorted (map m_created_at (sort_key m_created_at q))" by simp
  have d: "sorted (map m_created_at (take 100 (sort_key m_created_at q)))"
    using sorted_wrt_take [OF s, of 100] by (simp add: take_map)
  have e: "length (take 100 (sort_key m_created_at q)) = min 100 (length q)" by simp
  have f: "set (take 100 (sort_key m_created_at q)) \<subseteq> set q"
    using set_take_subset [of 100 "sort_key m_created_at q"] by simp
  have g: "\<forall>m \<in> set (drop 100 (sort_key m_created_at q)).
      \<forall>m' \<in> set (take 100 (sort_key m_created_at q)). m_created_at m' \<le> m_created_at m"
    using sorted_take_drop_le [OF s] by blast
  from a b c' c d e f g show ?thesis by blast
qed

theorem message_history_witness:
  "api_messages (ex_ctx 1) (Some ''lobby'') None ex_db_chat =
     Json (map (message_payload ex_db_chat)
       [ex_msg 3 20 2 None (Some ''lobby''), ex_msg 1 30 1 None (Some ''lobby'')]) \<and>
   api_messages (ex_ctx 1) None (Some 2) ex_db_chat =
     Json (map (message_payload ex_db_chat) [ex_msg 2 10 1 (Some 2) None]) \<and>
   api_messages (ex_ctx 1) None None ex_db_chat = Bad_request ''room or recipient_id required'' \<and>
   api_messages (ex_ctx 1) None (Some big_id) ex_db_chat = Server_error"
proof -
  have cu: "current_user ex_db_chat (ex_ctx 1) =
      Some (1, \<lparr>username = ''alice'', status = ''online'', coins = 1000\<rparr>)"
    by code_simp
  have t1: "truthy_str (Some ''lobby'')" by code_simp
  have t2: "\<not> truthy_str None \<and> truthy_id (Some 2) \<and> bindable (Some 2)" by code_simp
  have t4: "\<not> truthy_str None \<and> truthy_id (Some big_id) \<and> \<not> bindable (Some big_id)"
    by (simp add: truthy_str_def truthy_id_def bindable_def int64_def sqlite_int_max_def
        big_id_def)
  have t3: "\<not> truthy_str None \<and> \<not> truthy_id None" by code_simp
  have e1: "take 100 (sort_key m_created_at
      (filter (\<lambda>m. m_room m = Some ''lobby'') (messages ex_db_chat))) =
      [ex_msg 3 20 2 None (Some ''lobby''), ex_msg 1 30 1 None (Some ''lobby'')]"
    by code_simp
  have e2: "take 100 (sort_key m_created_at
      (filter (\<lambda>m. (m_sender_id m = 1 \<and> m_recipient_id m = Some 2) \<or>
                    (Some (m_sender_id m) = Some 2 \<and> m_recipient_id m = Some 1))
         (messages ex_db_chat))) = [ex_msg 2 10 1 (Some 2) None]"
    by code_simp
  have r1: "api_messages (ex_ctx 1) (Some ''lobby'') None ex_db_chat =
      Json (map (message_payload ex_db_chat)
        (take 100 (sort_key m_created_at
           (filter (\<lambda>m. m_room m = Some ''lobby'') (messages ex_db_chat)))))"
    using message_history [OF cu, where room = "Some ''lobby''" and rid = None] t1 by blast
  have r2: "api_messages (ex_ctx 1) None (Some 2) ex_db_chat =
      Json (map (message_payload ex_db_chat)
        (take 100 (sort_key m_created_at
           (filter (\<lambda>m. (m_sender_id m = 1 \<and> m_recipient_id m = Some 2) \<or>
                         (Some (m_sender_id m) = Some 2 \<and> m_recipient_id m = Some 1))
              (messages ex_db_chat)))))"
    using message_history [OF cu, where room = None and rid = "Some 2"] t2 by blast
  have r3: "api_messages (ex_ctx 1) None None ex_db_chat =
      Bad_request ''room or recipient_id required''"
    using message_history [OF cu, where room = None and rid = None] t3 by blast
  have r4: "api_messages (ex_ctx 1) None (Some big_id) ex_db_chat = Server_error"
    using message_history [OF cu, where room = None and rid = "Some big_id"] t4 by blast
  from r1 r2 r3 r4 show ?thesis by (simp only: e1 e2)
qed

text \<open>
  C7, as the claim has it, fails where it demands exactly one of the two parameters: a
  request with both a room and a recipient id is not refused; it is answered as a request
  for the room.
\<close>

theorem history_both_supplied:
  "api_messages (ex_ctx 1) (Some ''lobby'') (Some 2) ex_db_chat =
     Json (map (message_payload ex_db_chat)
       [ex_msg 3 20 2 None (Some ''lobby''), ex_msg 1 30 1 None (Some ''lobby'')])"
  by code_simp

subsection \<open>The direct-message gate\<close>

lemma first_unlock_None:
  "first_unlock st s r = None \<longleftrightarrow>
     (\<forall>u \<in> set (dm_unlocks st). \<not> (un_user_id u = s \<and> un_target_id u = r))"
proof -
  have "first_unlock st s r = None \<longleftrightarrow>
      filter (\<lambda>u. un_user_id u = s \<and> un_target_id u = r) (dm_unlocks st) = []"
    by (simp add: first_unlock_def split: list.splits)
  then show ?thesis by (simp add: filter_empty_conv)
qed

lemma first_unlock_unique:
  assumes "length (filter (\<lambda>u. un_user_id u = s \<and> un_target_id u = r) (dm_unlocks st)) \<le> 1"
    and "first_unlock st s r = Some v"
  shows "(u \<in> set (dm_unlocks st) \<and> un_user_id u = s \<and> un_target_id u = r) = (u = v)"
proof -
  let ?P = "\<lambda>u. un_user_id u = s \<and> un_target_id u = r"
  from assms(2) obtain vs where "filter ?P (dm_unlocks st) = v # vs"
    by (auto simp add: first_unlock_def split: list.splits)
  with assms(1) have "filter ?P (dm_unlocks st) = [v]" by simp
  then have "set (filter ?P (dm_unlocks st)) = {v}" by simp
  then have "{x \<in> set (dm_unlocks st). ?P x} = {v}" by simp
  then show ?thesis by blast
qed

lemma sent_count_dm_unlocks [simp]: "sent_count (st\<lparr>dm_unlocks := us\<rparr>) s r = sent_count st s r"
  by (simp add: sent_count_def since_of_def last_reply_def)

lemma unlock_inactive_removed:
  "\<not> unlock_active
       (st\<lparr>dm_unlocks := filter (\<lambda>u. \<not> (un_user_id u = s \<and> un_target_id u = r)) (dm_unlocks st)\<rparr>)
       s r now"
proof -
  have "filter (\<lambda>u. un_user_id u = s \<and> un_target_id u = r)
      (filter (\<lambda>u. \<not> (un_user_id u = s \<and> un_target_id u = r)) (dm_unlocks st)) = []"
    by (simp add: filter_empty_conv)
  then show ?thesis by (simp add: unlock_active_def first_unlock_def)
qed

text \<open>
  C5. For a sender and a recipient whose ids are within the 64 bits of the columns, and a
  table of unlocks with at most one row for the pair (the handlers never add a second one),
  the lookup of \<^verbatim>\<open>dm_allowed\<close> finds an unlock that is in force exactly when a row
  of the pair exists whose expiry is null or strictly later than now, and then the gate
  answers allowed without counting. When the row's expiry is not later than now the gate
  answers as it does for the store without the rows of the pair: allowed exactly when the
  count of sent messages is below 3.
\<close>

theorem unlock_check:
  assumes "length (filter (\<lambda>u. un_user_id u = s \<and> un_target_id u = r) (dm_unlocks st)) \<le> 1"
    and "int64 s" and "int64 r"
  shows "(unlock_active st s r now \<longleftrightarrow>
            (\<exists>u \<in> set (dm_unlocks st). un_user_id u = s \<and> un_target_id u = r \<and>
               (un_expires_at u = None \<or> (\<exists>e. un_expires_at u = Some e \<and> now < e)))) \<and>
         (unlock_active st s r now \<longrightarrow> dm_allowed st s r now = Some True) \<and>
         (\<not> unlock_active st s r now \<longrightarrow>
            dm_allowed st s r now = Some (sent_count st s r < 3) \<and>
            dm_allowed st s r now =
              dm_allowed
                (st\<lparr>dm_unlocks :=
                      filter (\<lambda>u. \<not> (un_user_id u = s \<and> un_target_id u = r)) (dm_unlocks st)\<rparr>)
                s r now)"
proof -
  have a: "unlock_active st s r now \<longleftrightarrow>
      (\<exists>u \<in> set (dm_unlocks st). un_user_id u = s \<and> un_target_id u = r \<and>
         (un_expires_at u = None \<or> (\<exists>e. un_expires_at u = Some e \<and> now < e)))"
  proof (cases "first_unlock st s r")
    case None
    then show ?thesis using first_unlock_None [of st s r] by (auto simp add: unlock_active_def)
  next
    case (Some v)
    have "\<And>u. (u \<in> set (dm_unlocks st) \<and> un_user_id u = s \<and> un_target_id u = r) = (u = v)"
      by (rule first_unlock_unique [OF assms(1) Some])
    then have "(\<exists>u \<in> set (dm_unlocks st). un_user_id u = s \<and> un_target_id u = r \<and>
         (un_expires_at u = None \<or> (\<exists>e. un_expires_at u = Some e \<and> now < e))) =
       (un_expires_at v = None \<or> (\<exists>e. un_expires_at v = Some e \<and> now < e))"
      by (metis (no_types, lifting))
    with Some show ?thesis by (auto simp add: unlock_active_def split: option.splits)
  qed
  have b: "unlock_active st s r now \<longrightarrow> dm_allowed st s r now = Some True"
    using assms(2,3) by (simp add: dm_allowed_def)
  have c: "\<not> unlock_active st s r now \<longrightarrow> dm_allowed st s r now = Some (sent_count st s r < 3)"
    using assms(2,3) by (simp add: dm_allowed_def DM_FREE_MSG_LIMIT_def)
  have d: "\<not> unlock_active st s r now \<longrightarrow>
      dm_allowed st s r now =
        dm_allowed
          (st\<lparr>dm_unlocks :=
                filter (\<lambda>u. \<not> (un_user_id u = s \<and> un_target_id u = r)) (dm_unlocks st)\<rparr>)
          s r now"
    using unlock_inactive_removed [where st = st and s = s and r = r and now = now]
    by (simp add: dm_allowed_def)
  from a b c d show ?thesis by blast
qed

theorem unlock_check_witness:
  "dm_allowed ex_db_expired 1 2 3 = Some True \<and> dm_allowed ex_db_expired 1 2 10 = Some False"
proof -
  have u: "length (filter (\<lambda>u. un_user_id u = 1 \<and> un_target_id u = 2) (dm_unlocks ex_db_expired)) \<le> 1"
    by code_simp
  have b: "int64 1" "int64 2" by code_simp+
  have on: "unlock_active ex_db_expired 1 2 3" by code_simp
  have off: "\<not> unlock_active ex_db_expired 1 2 10" by code_simp
  have n: "(sent_count ex_db_expired 1 2 < 3) = False" by code_simp
  from unlock_check [OF u b, of 3] on have p: "dm_allowed ex_db_expired 1 2 3 = Some True"
    by blast
  from unlock_check [OF u b, of 10] off
  have "dm_allowed ex_db_expired 1 2 10 = Some (sent_count ex_db_expired 1 2 < 3)" by blast
  then have q: "dm_allowed ex_db_expired 1 2 10 = Some False" by (simp only: n)
  from p q show ?thesis by blast
qed

lemma sorted_le_last: "sorted zs \<Longrightarrow> y \<in> set zs \<Longrightarrow> y \<le> last zs"
  by (induction zs) auto

lemma sort_key_Nil_iff: "(sort_key f xs = []) = (xs = [])"
proof -
  have "length (sort_key f xs) = length xs" by simp
  then show ?thesis by (simp only: flip: length_0_conv)
qed

lemma hd_rev_sort_key_Max:
  fixes f :: "'a \<Rightarrow> 'b::linorder"
  assumes "xs \<noteq> []"
  shows "f (hd (rev (sort_key f xs))) = Max (f ` set xs)"
proof -
  let ?ys = "sort_key f xs"
  have ne: "?ys \<noteq> []" using assms by (simp add: sort_key_Nil_iff)
  have "f (hd (rev ?ys)) = last (map f ?ys)" using ne by (simp add: hd_rev last_map)
  also have "\<dots> = Max (set (map f ?ys))"
  proof (rule Max_eqI [symmetric])
    show "finite (set (map f ?ys))" by simp
    show "\<And>y. y \<in> set (map f ?ys) \<Longrightarrow> y \<le> last (map f ?ys)"
      by (rule sorted_le_last) (simp_all del: set_map)
    show "last (map f ?ys) \<in> set (map f ?ys)" using ne by (intro last_in_set) simp
  qed
  finally show ?thesis by simp
qed

lemma since_of_last_reply_time: "since_of st s r = last_reply_time st s r"
proof -
  let ?rs = "filter (\<lambda>m. m_sender_id m = r \<and> m_recipient_id m = Some s) (messages st)"
  show ?thesis
  proof (cases "?rs = []")
    case True
    then show ?thesis by (simp add: since_of_def last_reply_def last_reply_time_def)
  next
    case False
    then have "rev (sort_key m_created_at ?rs) \<noteq> []" by (simp add: sort_key_Nil_iff)
    then obtain m ms where ms: "rev (sort_key m_created_at ?rs) = m # ms"
      by (cases "rev (sort_key m_created_at ?rs)") auto
    then have "m = hd (rev (sort_key m_created_at ?rs))" by simp
    then have "m_created_at m = Max (m_created_at ` set ?rs)"
      using hd_rev_sort_key_Max [OF False, of m_created_at] by simp
    with ms False show ?thesis
      by (simp add: since_of_def last_reply_def last_reply_time_def)
  qed
qed

lemma sent_count_unanswered: "sent_count st s r = unanswered st s r"
  by (simp add: sent_count_def unanswered_def since_of_last_reply_time)

lemma send_message_gated:
  assumes "resolve_sender st c = Some s" and "s \<noteq> 0" and "r \<noteq> 0"
    and "d_recipient_id d = Some r"
    and "strip (case d_body d of None \<Rightarrow> [] | Some b \<Rightarrow> b) \<noteq> []"
    and "dm_allowed st s r now = Some allowed" and "int64 s" and "int64 r"
  shows "sio_send_message c d now t st =
     (if \<not> allowed
      then (st, [blocked ''You must receive a response or send coins to unlock.'' (str_int s)])
      else
        let msg = \<lparr>m_id = next_id (map m_id (messages st)),
                   m_body = strip (case d_body d of None \<Rightarrow> [] | Some b \<Rightarrow> b),
                   m_created_at = t, m_sender_id = s, m_recipient_id = Some r,
                   m_room = d_room d\<rparr>;
            st' = st\<lparr>messages := messages st @ [msg]\<rparr>
        in (st', new_message_effects s d (message_payload st' msg)))"
  using assms by (simp add: sio_send_message_def dm_gate_def bindable_def Let_def)

lemma send_message_unbindable:
  assumes "resolve_sender st c = Some s" and "s \<noteq> 0" and "r \<noteq> 0"
    and "d_recipient_id d = Some r"
    and "strip (case d_body d of None \<Rightarrow> [] | Some b \<Rightarrow> b) \<noteq> []"
    and "\<not> int64 r"
  shows "sio_send_message c d now t st = (st, [blocked ''Error sending message.'' (sid c)])"
  using assms by (simp add: sio_send_message_def dm_gate_def dm_allowed_def Let_def)

text \<open>
  C1. For a sender and a recipient whose ids are within the 64 bits of the columns and who
  have no unlock in force, the gate allows a direct message exactly when the number of
  messages of the sender to the recipient that are strictly later than the recipient's last
  reply to the sender (later than the minimum timestamp when there is no reply) is below 3.
  A message with a body, from a resolved sender to a recipient id other than 0, is then
  refused at a count of 3 or more: the store stays as it was, so no message is persisted,
  and the only effect is one \<^verbatim>\<open>blocked_message\<close> with the reason about unlocking, sent
  to the sender's room. Below 3 the message is appended to the table.
\<close>

theorem free_message_limit:
  assumes "\<not> unlock_active st s r now" and "int64 s" and "int64 r"
  shows "dm_allowed st s r now = Some (unanswered st s r < 3) \<and>
         (resolve_sender st c = Some s \<and> s \<noteq> 0 \<and> r \<noteq> 0 \<and> d_recipient_id d = Some r \<and>
          strip (case d_body d of None \<Rightarrow> [] | Some b \<Rightarrow> b) \<noteq> [] \<longrightarrow>
            (3 \<le> unanswered st s r \<longrightarrow>
               sio_send_message c d now t st =
                 (st, [blocked ''You must receive a response or send coins to unlock.''
                         (str_int s)])) \<and>
            (unanswered st s r < 3 \<longrightarrow>
               messages (fst (sio_send_message c d now t st)) =
                 messages st @
                   [\<lparr>m_id = next_id (map m_id (messages st)),
                     m_body = strip (case d_body d of None \<Rightarrow> [] | Some b \<Rightarrow> b),
                     m_created_at = t, m_sender_id = s, m_recipient_id = Some r,
                     m_room = d_room d\<rparr>]))"
proof -
  have a: "dm_allowed st s r now = Some (unanswered st s r < 3)"
    using assms by (simp add: dm_allowed_def DM_FREE_MSG_LIMIT_def sent_count_unanswered)
  have b: "sio_send_message c d now t st =
      (st, [blocked ''You must receive a response or send coins to unlock.'' (str_int s)])"
    if "resolve_sender st c = Some s" "s \<noteq> 0" "r \<noteq> 0" "d_recipient_id d = Some r"
      "strip (case d_body d of None \<Rightarrow> [] | Some b \<Rightarrow> b) \<noteq> []" "3 \<le> unanswered st s r"
    using send_message_gated [OF that(1-5) a assms(2,3), of t] that(6) by simp
  have c: "messages (fst (sio_send_message c d now t st)) =
      messages st @
        [\<lparr>m_id = next_id (map m_id (messages st)),
          m_body = strip (case d_body d of None \<Rightarrow> [] | Some b \<Rightarrow> b),
          m_created_at = t, m_sender_id = s, m_recipient_id = Some r, m_room = d_room d\<rparr>]"
    if "resolve_sender st c = Some s" "s \<noteq> 0" "r \<noteq> 0" "d_recipient_id d = Some r"
      "strip (case d_body d of None \<Rightarrow> [] | Some b \<Rightarrow> b) \<noteq> []" "unanswered st s r < 3"
    using send_message_gated [OF that(1-5) a assms(2,3), of t] that(6) by (simp add: Let_def)
  from a b c show ?thesis by blast
qed

theorem free_message_limit_witness:
  "dm_allowed ex_db_dm 1 2 9 = Some False \<and>
   sio_send_message (ex_ctx 1) dm_to_2 9 9 ex_db_dm =
     (ex_db_dm, [blocked ''You must receive a response or send coins to unlock.'' (str_int 1)]) \<and>
   dm_allowed ex_db_replied 1 2 9 = Some True \<and>
   messages (fst (sio_send_message (ex_ctx 1) dm_to_2 9 9 ex_db_replied)) =
     messages ex_db_replied @
       [\<lparr>m_id = 5, m_body = ''hello'', m_created_at = 9, m_sender_id = 1,
         m_recipient_id = Some 2, m_room = None\<rparr>]"
proof -
  have u1: "\<not> unlock_active ex_db_dm 1 2 9" by code_simp
  have u2: "\<not> unlock_active ex_db_replied 1 2 9" by code_simp
  have i: "int64 1" "int64 2" by code_simp+
  have n1: "3 \<le> unanswered ex_db_dm 1 2" by code_simp
  have n2: "unanswered ex_db_replied 1 2 < 3" by code_simp
  have n1': "(unanswered ex_db_dm 1 2 < 3) = False" by code_simp
  have n2': "(unanswered ex_db_replied 1 2 < 3) = True" by code_simp
  have h1: "resolve_sender ex_db_dm (ex_ctx 1) = Some 1 \<and> (1::int) \<noteq> 0 \<and> (2::int) \<noteq> 0 \<and>
      d_recipient_id dm_to_2 = Some 2 \<and>
      strip (case d_body dm_to_2 of None \<Rightarrow> [] | Some b \<Rightarrow> b) \<noteq> []"
    by code_simp
  have h2: "resolve_sender ex_db_replied (ex_ctx 1) = Some 1 \<and> (1::int) \<noteq> 0 \<and> (2::int) \<noteq> 0 \<and>
      d_recipient_id dm_to_2 = Some 2 \<and>
      strip (case d_body dm_to_2 of None \<Rightarrow> [] | Some b \<Rightarrow> b) \<noteq> []"
    by code_simp
  have e: "\<lparr>m_id = next_id (map m_id (messages ex_db_replied)),
        m_body = strip (case d_body dm_to_2 of None \<Rightarrow> [] | Some b \<Rightarrow> b),
        m_created_at = 9, m_sender_id = 1, m_recipient_id = Some 2, m_room = d_room dm_to_2\<rparr> =
      \<lparr>m_id = 5, m_body = ''hello'', m_created_at = 9, m_sender_id = 1,
        m_recipient_id = Some 2, m_room = None\<rparr>"
    by code_simp
  note g1 = free_message_limit [OF u1 i, where c = "ex_ctx 1" and d = dm_to_2 and t = 9]
  note g2 = free_message_limit [OF u2 i, where c = "ex_ctx 1" and d = dm_to_2 and t = 9]
  have p1: "dm_allowed ex_db_dm 1 2 9 = Some (unanswered ex_db_dm 1 2 < 3)" using g1 by blast
  have p2: "sio_send_message (ex_ctx 1) dm_to_2 9 9 ex_db_dm =
      (ex_db_dm, [blocked ''You must receive a response or send coins to unlock.'' (str_int 1)])"
    using g1 h1 n1 by blast
  have p3: "dm_allowed ex_db_replied 1 2 9 = Some (unanswered ex_db_replied 1 2 < 3)"
    using g2 by blast
  have p4: "messages (fst (sio_send_message (ex_ctx 1) dm_to_2 9 9 ex_db_replied)) =
      messages ex_db_replied @
        [\<lparr>m_id = next_id (map m_id (messages ex_db_replied)),
          m_body = strip (case d_body dm_to_2 of None \<Rightarrow> [] | Some b \<Rightarrow> b),
          m_created_at = 9, m_sender_id = 1, m_recipient_id = Some 2, m_room = d_room dm_to_2\<rparr>]"
    using g2 h2 n2 by blast
  from p1 [unfolded n1'] p2 p3 [unfolded n2'] p4 [unfolded e] show ?thesis by blast
qed

end
